theory Spec2Isabelle
  imports Main
begin

section \<open>Response envelope and error table (src/utils/response.ts)\<close>

text \<open>
  Every response is a status code and a JSON envelope. The failure envelope is
  \<^verbatim>\<open>{success: false, error: {code, message, details?}}\<close>; \<open>details\<close> is spread into the
  object only when it is not \<open>undefined\<close>, so it is an option here. The only details
  the program ever produces are the validator's \<open>{field, message}\<close> pairs.
\<close>

type_synonym details = "(string \<times> string) list"

datatype 'a envelope =
    SuccessResponse 'a
  | ErrorResponse string string "details option"

record 'a Response =
  res_status :: nat
  res_json :: "'a envelope"

definition sendSuccess :: "'a \<Rightarrow> nat \<Rightarrow> 'a Response" where
  "sendSuccess payload statusCode =
     \<lparr>res_status = statusCode, res_json = SuccessResponse payload\<rparr>"

definition sendError :: "string \<Rightarrow> string \<Rightarrow> nat \<Rightarrow> details option \<Rightarrow> 'a Response" where
  "sendError code message statusCode dets =
     \<lparr>res_status = statusCode, res_json = ErrorResponse code message dets\<rparr>"

text \<open>The table \<open>Errors\<close>: each entry is a code and its HTTP status.\<close>

record ErrorEntry =
  code :: string
  status :: nat

definition VALIDATION_ERROR :: ErrorEntry where
  "VALIDATION_ERROR = \<lparr>code = ''VALIDATION_ERROR'', status = 400\<rparr>"

definition UNAUTHORIZED :: ErrorEntry where
  "UNAUTHORIZED = \<lparr>code = ''UNAUTHORIZED'', status = 401\<rparr>"

definition FORBIDDEN :: ErrorEntry where
  "FORBIDDEN = \<lparr>code = ''FORBIDDEN'', status = 403\<rparr>"

definition NOT_FOUND :: ErrorEntry where
  "NOT_FOUND = \<lparr>code = ''NOT_FOUND'', status = 404\<rparr>"

definition CONFLICT :: ErrorEntry where
  "CONFLICT = \<lparr>code = ''CONFLICT'', status = 409\<rparr>"

definition INTERNAL_ERROR :: ErrorEntry where
  "INTERNAL_ERROR = \<lparr>code = ''INTERNAL_ERROR'', status = 500\<rparr>"

section \<open>Thrown values and the global error handler (src/middleware/errorHandler.ts)\<close>

text \<open>
  What a handler can throw, as far as \<open>errorHandler\<close> tells values apart:
  an \<open>AppError\<close> (code, message, statusCode; no service passes \<open>details\<close>), a
  \<open>ZodError\<close> with its issues (path and message), Prisma's
  \<open>PrismaClientKnownRequestError\<close> (its \<open>code\<close> and \<open>meta.target\<close>), and any other
  \<open>Error\<close> (its message).
\<close>

datatype thrown =
    AppError string string nat
  | ZodError "(string list \<times> string) list"
  | PrismaClientKnownRequestError string "string list option"
  | Error string

text \<open>\<open>e.path.join('.')\<close>\<close>

fun join_dot :: "string list \<Rightarrow> string" where
  "join_dot [] = []"
| "join_dot [p] = p"
| "join_dot (p # q # ps) = p @ ''.'' @ join_dot (q # ps)"

text \<open>\<open>prismaError.meta?.target?.[0] || 'field'\<close>: the empty string is falsy too.\<close>

definition target_or_field :: "string list option \<Rightarrow> string" where
  "target_or_field target =
     (case target of
        None \<Rightarrow> ''field''
      | Some [] \<Rightarrow> ''field''
      | Some (t # _) \<Rightarrow> (if t = [] then ''field'' else t))"

fun errorHandler :: "thrown \<Rightarrow> 'a Response" where
  "errorHandler (ZodError errors) =
     sendError (code VALIDATION_ERROR) ''Validation failed'' (status VALIDATION_ERROR)
       (Some (map (\<lambda>(path, message). (join_dot path, message)) errors))"
| "errorHandler (AppError c message statusCode) = sendError c message statusCode None"
| "errorHandler (PrismaClientKnownRequestError c target) =
     (if c = ''P2002'' then
        sendError (code CONFLICT)
          (''A record with this '' @ target_or_field target @ '' already exists.'')
          (status CONFLICT) None
      else if c = ''P2025'' then
        sendError (code NOT_FOUND) ''Record not found.'' (status NOT_FOUND) None
      else
        sendError (code INTERNAL_ERROR) ''An unexpected error occurred.''
          (status INTERNAL_ERROR) None)"
| "errorHandler (Error _) =
     sendError (code INTERNAL_ERROR) ''An unexpected error occurred.''
       (status INTERNAL_ERROR) None"

section \<open>Projects (src/services/projects.service.ts)\<close>

datatype ProjectStatus = Todo | Doing | Done

record Project =
  project_id :: string
  title :: string
  description :: "string option"
  project_status :: ProjectStatus
  ownerId :: string
  createdAt :: int
  updatedAt :: int

text \<open>
  The \<open>projects\<close> table has \<open>id\<close> as its primary key, so it is a map from ids to rows.
  \<open>prisma.project.findUnique({where: {id}})\<close> is the lookup in that map. Each operation
  of the service is modelled as one step on the table: nothing else writes the table
  between its lookup and its write.
\<close>

type_synonym projects = "string \<rightharpoonup> Project"

record UpdateProjectInput =
  upd_title :: "string option"
  upd_description :: "string option"
  upd_status :: "ProjectStatus option"

text \<open>
  Modelled from the spec: the Store's \<open>updateProject\<close>, which the code reaches as
  \<open>prisma.project.update({where: {id}, data})\<close>. The Prisma client and the schema file
  are not part of the repository. A field that is \<open>undefined\<close> in \<open>data\<close> is not
  written, \<open>updatedAt\<close> (which the migration declares without a default) is set to the
  time of the write, the parameter \<open>now\<close>, and a missing row raises the known-request
  error \<open>P2025\<close> (the "record missing" error of the spec).
\<close>

definition prisma_project_update ::
  "int \<Rightarrow> string \<Rightarrow> UpdateProjectInput \<Rightarrow> projects \<Rightarrow> thrown + (Project \<times> projects)" where
  "prisma_project_update now pid updateData db =
     (case db pid of
        None \<Rightarrow> Inl (PrismaClientKnownRequestError ''P2025'' None)
      | Some p \<Rightarrow>
          let p' = p\<lparr>title := (case upd_title updateData of None \<Rightarrow> title p | Some t \<Rightarrow> t),
                      description := (case upd_description updateData of
                                        None \<Rightarrow> description p | Some d \<Rightarrow> Some d),
                      project_status := (case upd_status updateData of
                                           None \<Rightarrow> project_status p | Some s \<Rightarrow> s),
                      updatedAt := now\<rparr>
          in Inr (p', db(pid \<mapsto> p')))"

text \<open>
  Modelled from the spec: the Store's \<open>deleteProject\<close>, which the code reaches as
  \<open>prisma.project.delete({where: {id}})\<close>: the row is removed, and a missing row raises
  \<open>P2025\<close>.
\<close>

definition prisma_project_delete :: "string \<Rightarrow> projects \<Rightarrow> thrown + projects" where
  "prisma_project_delete pid db =
     (case db pid of
        None \<Rightarrow> Inl (PrismaClientKnownRequestError ''P2025'' None)
      | Some _ \<Rightarrow> Inr (db(pid := None)))"

definition getProjectById :: "string \<Rightarrow> string \<Rightarrow> projects \<Rightarrow> thrown + Project" where
  "getProjectById projectId requester db =
     (case db projectId of
        None \<Rightarrow> Inl (AppError (code NOT_FOUND) ''Project not found.'' (status NOT_FOUND))
      | Some project \<Rightarrow>
          if ownerId project \<noteq> requester then
            Inl (AppError (code FORBIDDEN)
                   ''You do not have permission to access this project.'' (status FORBIDDEN))
          else Inr project)"

text \<open>
  \<open>updateData\<close> starts as the empty object and receives exactly the fields of the input
  that are not \<open>undefined\<close>.
\<close>

definition build_updateData :: "UpdateProjectInput \<Rightarrow> UpdateProjectInput" where
  "build_updateData input =
     (let updateData = \<lparr>upd_title = None, upd_description = None, upd_status = None\<rparr>;
          updateData = (if upd_title input \<noteq> None
                        then updateData\<lparr>upd_title := upd_title input\<rparr> else updateData);
          updateData = (if upd_description input \<noteq> None
                        then updateData\<lparr>upd_description := upd_description input\<rparr>
                        else updateData);
          updateData = (if upd_status input \<noteq> None
                        then updateData\<lparr>upd_status := upd_status input\<rparr> else updateData)
      in updateData)"

definition updateProject ::
  "int \<Rightarrow> string \<Rightarrow> string \<Rightarrow> UpdateProjectInput \<Rightarrow> projects \<Rightarrow> thrown + (Project \<times> projects)" where
  "updateProject now projectId requester input db =
     (case db projectId of
        None \<Rightarrow> Inl (AppError (code NOT_FOUND) ''Project not found.'' (status NOT_FOUND))
      | Some project \<Rightarrow>
          if ownerId project \<noteq> requester then
            Inl (AppError (code FORBIDDEN)
                   ''You do not have permission to modify this project.'' (status FORBIDDEN))
          else prisma_project_update now projectId (build_updateData input) db)"

definition deleteProject :: "string \<Rightarrow> string \<Rightarrow> projects \<Rightarrow> thrown + projects" where
  "deleteProject projectId requester db =
     (case db projectId of
        None \<Rightarrow> Inl (AppError (code NOT_FOUND) ''Project not found.'' (status NOT_FOUND))
      | Some project \<Rightarrow>
          if ownerId project \<noteq> requester then
            Inl (AppError (code FORBIDDEN)
                   ''You do not have permission to delete this project.'' (status FORBIDDEN))
          else prisma_project_delete projectId db)"

definition adminDeleteProject :: "string \<Rightarrow> projects \<Rightarrow> thrown + projects" where
  "adminDeleteProject projectId db =
     (case db projectId of
        None \<Rightarrow> Inl (AppError (code NOT_FOUND) ''Project not found.'' (status NOT_FOUND))
      | Some project \<Rightarrow> prisma_project_delete projectId db)"

text \<open>The code of a thrown value as the caller sees it after \<open>errorHandler\<close>.\<close>

definition failure_code :: "thrown \<Rightarrow> string" where
  "failure_code e = (case res_json (errorHandler e :: unit Response) of
                       ErrorResponse c _ _ \<Rightarrow> c | SuccessResponse _ \<Rightarrow> [])"

section \<open>Users and the auth service (src/services/auth.service.ts)\<close>

record User =
  user_id :: string
  user_name :: string
  user_email :: string
  passwordHash :: string
  user_role :: string
  user_createdAt :: int
  user_updatedAt :: int

text \<open>
  The \<open>users\<close> table is the list of its rows. The user repository
  (\<open>createPrismaUserRepo\<close>) looks a row up by its email or by its id with
  \<open>prisma.user.findUnique\<close>.
\<close>

type_synonym users = "User list"

definition findByEmail :: "string \<Rightarrow> users \<Rightarrow> User option" where
  "findByEmail email tbl = find (\<lambda>u. user_email u = email) tbl"

definition findById :: "string \<Rightarrow> users \<Rightarrow> User option" where
  "findById uid tbl = find (\<lambda>u. user_id u = uid) tbl"

text \<open>
  Modelled from the spec: the Store's \<open>createUser\<close>, which the code reaches as
  \<open>prisma.user.create({data})\<close>. The Prisma client and the schema file are not part of
  the repository. The migration declares \<open>id\<close> as the primary key and a unique index on
  \<open>email\<close> (the spec's email uniqueness enforced at the store); Prisma reports a violated
  uniqueness constraint as the known-request error \<open>P2002\<close> whose \<open>meta.target\<close> names
  the column. The generated id and the time of the insert are the parameters \<open>newId\<close>
  and \<open>now\<close>.
\<close>

definition prisma_user_create ::
  "string \<Rightarrow> int \<Rightarrow> string \<Rightarrow> string \<Rightarrow> string \<Rightarrow> string \<Rightarrow> users \<Rightarrow> thrown + (User \<times> users)" where
  "prisma_user_create newId now name email pwHash role tbl =
     (if findById newId tbl \<noteq> None then
        Inl (PrismaClientKnownRequestError ''P2002'' (Some [''id'']))
      else if findByEmail email tbl \<noteq> None then
        Inl (PrismaClientKnownRequestError ''P2002'' (Some [''email'']))
      else
        let user = \<lparr>user_id = newId, user_name = name, user_email = email,
                      passwordHash = pwHash, user_role = role,
                      user_createdAt = now, user_updatedAt = now\<rparr>
        in Inr (user, tbl @ [user]))"

text \<open>
  The claim a token carries (\<open>JwtPayload\<close> of src/middleware/auth.ts). The role is
  whatever string the token holds: the type annotation is not checked at run time.
\<close>

record JwtPayload =
  userId :: string
  role :: string

text \<open>
  The collaborators the service is built from (\<open>AuthServiceDeps\<close>): the password hasher
  (bcrypt; \<open>hash\<close> stands for the salted hash of one call) and the token signer, which
  reads the clock for the expiry it writes into the token.
\<close>

record AuthServiceDeps =
  passwordHasher_hash :: "string \<Rightarrow> string"
  passwordHasher_compare :: "string \<Rightarrow> string \<Rightarrow> bool"
  tokenSigner_sign :: "int \<Rightarrow> JwtPayload \<Rightarrow> string"

record RegisterInput =
  reg_name :: string
  reg_email :: string
  reg_password :: string

record LoginInput =
  login_email :: string
  login_password :: string

text \<open>
  \<open>sanitizeUser\<close> builds a new object from an object literal. The object is the list of
  its properties, so that which properties it has can be stated.
\<close>

datatype jsvalue = JString string | JDate int

type_synonym UserResponse = "(string \<times> jsvalue) list"

definition sanitizeUser :: "User \<Rightarrow> UserResponse" where
  "sanitizeUser user =
     [(''id'', JString (user_id user)),
      (''name'', JString (user_name user)),
      (''email'', JString (user_email user)),
      (''role'', JString (user_role user)),
      (''createdAt'', JDate (user_createdAt user)),
      (''updatedAt'', JDate (user_updatedAt user))]"

record AuthResponse =
  auth_user :: UserResponse
  auth_token :: string

text \<open>
  \<open>register\<close> awaits the lookup, then the hash, then the insert. Other requests run
  between the awaited steps; \<open>concurrent\<close> is what they do to the table between the
  lookup and the insert (the identity when nothing else runs).
\<close>

definition register ::
  "AuthServiceDeps \<Rightarrow> (users \<Rightarrow> users) \<Rightarrow> string \<Rightarrow> int \<Rightarrow> RegisterInput \<Rightarrow> users
     \<Rightarrow> thrown + (AuthResponse \<times> users)" where
  "register deps concurrent newId now input tbl =
     (case findByEmail (reg_email input) tbl of
        Some existingUser \<Rightarrow>
          Inl (AppError (code CONFLICT) ''A user with this email already exists.''
                 (status CONFLICT))
      | None \<Rightarrow>
          let pwHash = passwordHasher_hash deps (reg_password input) in
          (case prisma_user_create newId now (reg_name input) (reg_email input) pwHash
                  ''user'' (concurrent tbl) of
             Inl e \<Rightarrow> Inl e
           | Inr (user, tbl') \<Rightarrow>
               let token = tokenSigner_sign deps now
                             \<lparr>userId = user_id user, role = user_role user\<rparr>
               in Inr (\<lparr>auth_user = sanitizeUser user, auth_token = token\<rparr>, tbl')))"

definition login :: "AuthServiceDeps \<Rightarrow> int \<Rightarrow> LoginInput \<Rightarrow> users \<Rightarrow> thrown + AuthResponse" where
  "login deps now input tbl =
     (case findByEmail (login_email input) tbl of
        None \<Rightarrow>
          Inl (AppError (code UNAUTHORIZED) ''Invalid email or password.''
                 (status UNAUTHORIZED))
      | Some user \<Rightarrow>
          if \<not> passwordHasher_compare deps (login_password input) (passwordHash user) then
            Inl (AppError (code UNAUTHORIZED) ''Invalid email or password.''
                   (status UNAUTHORIZED))
          else
            let token = tokenSigner_sign deps now
                          \<lparr>userId = user_id user, role = user_role user\<rparr>
            in Inr \<lparr>auth_user = sanitizeUser user, auth_token = token\<rparr>)"

definition getCurrentUser :: "string \<Rightarrow> users \<Rightarrow> thrown + UserResponse" where
  "getCurrentUser uid tbl =
     (case findById uid tbl of
        None \<Rightarrow> Inl (AppError (code NOT_FOUND) ''User not found.'' (status NOT_FOUND))
      | Some user \<Rightarrow> Inr (sanitizeUser user))"

text \<open>
  The controllers of src/controllers/auth.controller.ts after the body has passed its
  schema: the service's result is sent with \<open>sendSuccess\<close>, and what the service throws
  goes through \<open>next(error)\<close> to \<open>errorHandler\<close>.
\<close>

definition authController_register ::
  "AuthServiceDeps \<Rightarrow> (users \<Rightarrow> users) \<Rightarrow> string \<Rightarrow> int \<Rightarrow> RegisterInput \<Rightarrow> users
     \<Rightarrow> AuthResponse Response" where
  "authController_register deps concurrent newId now input tbl =
     (case register deps concurrent newId now input tbl of
        Inl e \<Rightarrow> errorHandler e
      | Inr (result, _) \<Rightarrow> sendSuccess result 201)"

definition authController_login ::
  "AuthServiceDeps \<Rightarrow> int \<Rightarrow> LoginInput \<Rightarrow> users \<Rightarrow> AuthResponse Response" where
  "authController_login deps now input tbl =
     (case login deps now input tbl of
        Inl e \<Rightarrow> errorHandler e
      | Inr result \<Rightarrow> sendSuccess result 200)"

section \<open>The authorization gate (src/middleware/auth.ts)\<close>

text \<open>
  What the middlewares read and write of a request: the \<open>authorization\<close> header, the
  claim \<open>req.user\<close> that \<open>authenticate\<close> attaches, and the client address the rate
  limiter keys on.
\<close>

record Request =
  authorization :: "string option"
  req_user :: "JwtPayload option"
  ip :: "string option"
  remoteAddress :: "string option"

text \<open>
  A middleware either sends a response, which ends the chain, or calls \<open>next()\<close> with
  the request as it has left it.
\<close>

datatype 'a outcome = Sent "'a Response" | Next Request

definition startsWith :: "string \<Rightarrow> string \<Rightarrow> bool" where
  "startsWith s pre = (take (length pre) s = pre)"

text \<open>
  \<open>jwt.verify(token, env.jwtSecret)\<close> belongs to the jsonwebtoken library, not to the
  repository, so it is the parameter \<open>verify\<close>: from the token, the key and the time of
  the call (the library compares the token's expiry with the clock) to the decoded claim,
  or \<open>None\<close> where the library throws.
\<close>

type_synonym jwt_verify = "string \<Rightarrow> string \<Rightarrow> int \<Rightarrow> JwtPayload option"

definition authenticate :: "jwt_verify \<Rightarrow> string \<Rightarrow> int \<Rightarrow> Request \<Rightarrow> 'a outcome" where
  "authenticate verify jwtSecret now req =
     (case authorization req of
        None \<Rightarrow>
          Sent (sendError (code UNAUTHORIZED)
                  ''Authentication required. Please provide a valid Bearer token.''
                  (status UNAUTHORIZED) None)
      | Some authHeader \<Rightarrow>
          if authHeader = [] \<or> \<not> startsWith authHeader ''Bearer '' then
            Sent (sendError (code UNAUTHORIZED)
                    ''Authentication required. Please provide a valid Bearer token.''
                    (status UNAUTHORIZED) None)
          else
            let token = drop 7 authHeader in
            (case verify token jwtSecret now of
               Some payload \<Rightarrow> Next (req\<lparr>req_user := Some payload\<rparr>)
             | None \<Rightarrow>
                 Sent (sendError (code UNAUTHORIZED) ''Invalid or expired token.''
                         (status UNAUTHORIZED) None)))"

definition requireAdmin :: "Request \<Rightarrow> 'a outcome" where
  "requireAdmin req =
     (case req_user req of
        None \<Rightarrow>
          Sent (sendError (code UNAUTHORIZED) ''Authentication required.''
                  (status UNAUTHORIZED) None)
      | Some u \<Rightarrow>
          if role u \<noteq> ''admin'' then
            Sent (sendError (code FORBIDDEN) ''Admin access required.''
                    (status FORBIDDEN) None)
          else Next req)"

section \<open>The admin and auth routes (src/routes, src/controllers)\<close>

text \<open>
  \<open>adminController.deleteProject\<close>: the service's failure goes to \<open>errorHandler\<close>, its
  success is answered with the confirmation message.
\<close>

definition adminController_deleteProject :: "string \<Rightarrow> projects \<Rightarrow> string Response \<times> projects" where
  "adminController_deleteProject pid db =
     (case adminDeleteProject pid db of
        Inl e \<Rightarrow> (errorHandler e, db)
      | Inr db' \<Rightarrow> (sendSuccess ''Project deleted successfully'' 200, db'))"

text \<open>
  The admin router runs \<open>authenticate\<close>, then \<open>requireAdmin\<close>, then the route's
  controller. The database is the users table and the projects table.
\<close>

record Db =
  db_users :: users
  db_projects :: projects

definition admin_gate :: "jwt_verify \<Rightarrow> string \<Rightarrow> int \<Rightarrow> Request \<Rightarrow> 'a outcome" where
  "admin_gate verify jwtSecret now req =
     (case authenticate verify jwtSecret now req of
        Sent r \<Rightarrow> Sent r
      | Next req1 \<Rightarrow> requireAdmin req1)"

definition admin_delete_route ::
  "jwt_verify \<Rightarrow> string \<Rightarrow> int \<Rightarrow> Request \<Rightarrow> string \<Rightarrow> Db \<Rightarrow> string Response \<times> Db" where
  "admin_delete_route verify jwtSecret now req pid db =
     (case admin_gate verify jwtSecret now req of
        Sent r \<Rightarrow> (r, db)
      | Next req2 \<Rightarrow>
          (case adminController_deleteProject pid (db_projects db) of
             (r, projects') \<Rightarrow> (r, db\<lparr>db_projects := projects'\<rparr>)))"

text \<open>
  The controller \<open>me\<close> of \<open>GET /auth/me\<close>, which runs after \<open>authenticate\<close>: it throws
  a plain \<open>Error\<close> when no claim is attached and otherwise asks the service for the
  claim's subject.
\<close>

definition authController_me :: "Request \<Rightarrow> users \<Rightarrow> UserResponse Response" where
  "authController_me req tbl =
     (case req_user req of
        None \<Rightarrow> errorHandler (Error ''User not authenticated'')
      | Some u \<Rightarrow>
          (case getCurrentUser (userId u) tbl of
             Inl e \<Rightarrow> errorHandler e
           | Inr user \<Rightarrow> sendSuccess user 200))"

section \<open>Pagination parsing (src/controllers/projects.controller.ts, admin.controller.ts)\<close>

text \<open>
  A JavaScript number as far as the pagination code can produce one: \<open>NaN\<close> or an
  integer. \<open>Num n\<close> holds the mathematical value of the digits read; JavaScript rounds a
  value beyond \<open>2^53\<close> to a double, which keeps its sign and its order relative to 0, 1
  and 50, so the clamped results below are the same.
\<close>

datatype jsnumber = NaN | Num int

text \<open>
  \<open>Math.max\<close> and \<open>Math.min\<close> of two arguments: \<open>NaN\<close> when an argument is \<open>NaN\<close>.
\<close>

fun Math_max :: "jsnumber \<Rightarrow> jsnumber \<Rightarrow> jsnumber" where
  "Math_max (Num a) (Num b) = Num (max a b)"
| "Math_max _ _ = NaN"

fun Math_min :: "jsnumber \<Rightarrow> jsnumber \<Rightarrow> jsnumber" where
  "Math_min (Num a) (Num b) = Num (min a b)"
| "Math_min _ _ = NaN"

text \<open>
  \<open>parseInt(string, 10)\<close> as ECMAScript defines it: leading white space is skipped, one
  sign is read, then the longest prefix of decimal digits; with no digit the result is
  \<open>NaN\<close>. A string is a list of characters with codes below 256, of which the white
  space characters are 9 to 13, 32 and 160.
\<close>

definition isWhiteSpace :: "char \<Rightarrow> bool" where
  "isWhiteSpace c = ((of_char c :: nat) \<in> {9, 10, 11, 12, 13, 32, 160})"

definition isDigit :: "char \<Rightarrow> bool" where
  "isDigit c = (48 \<le> (of_char c :: nat) \<and> (of_char c :: nat) \<le> 57)"

definition digit_value :: "char \<Rightarrow> int" where
  "digit_value c = int (of_char c) - 48"

definition digits_value :: "string \<Rightarrow> int" where
  "digits_value ds = foldl (\<lambda>acc c. acc * 10 + digit_value c) 0 ds"

definition parseInt :: "string \<Rightarrow> jsnumber" where
  "parseInt inputString =
     (let S = dropWhile isWhiteSpace inputString;
          sign = (if S \<noteq> [] \<and> hd S = CHR ''-'' then - 1 else 1);
          S = (if S \<noteq> [] \<and> (hd S = CHR ''+'' \<or> hd S = CHR ''-'') then tl S else S);
          Z = takeWhile isDigit S
      in if Z = [] then NaN else Num (sign * digits_value Z))"

text \<open>
  The two transforms of \<open>paginationSchema\<close>. The field is a string or absent
  (\<open>z.string().optional()\<close>); \<open>val || '10'\<close> takes the default for the absent and for the
  empty string.
\<close>

definition limit_transform :: "string option \<Rightarrow> jsnumber" where
  "limit_transform val =
     (let num = parseInt (case val of None \<Rightarrow> ''10'' | Some v \<Rightarrow> if v = [] then ''10'' else v)
      in Math_min (Math_max (Num 1) num) (Num 50))"

definition offset_transform :: "string option \<Rightarrow> jsnumber" where
  "offset_transform val =
     (let num = parseInt (case val of None \<Rightarrow> ''0'' | Some v \<Rightarrow> if v = [] then ''0'' else v)
      in Math_max (Num 0) num)"

record PaginationParams =
  pg_limit :: jsnumber
  pg_offset :: jsnumber

definition paginationSchema_parse :: "string option \<Rightarrow> string option \<Rightarrow> PaginationParams" where
  "paginationSchema_parse limit_field offset_field =
     \<lparr>pg_limit = limit_transform limit_field, pg_offset = offset_transform offset_field\<rparr>"

section \<open>The rate limiter (src/middleware/rateLimit.ts)\<close>

record RateLimitEntry =
  count :: nat
  resetTime :: int

type_synonym rateLimitStore = "string \<rightharpoonup> RateLimitEntry"

text \<open>\<open>req.ip || req.socket.remoteAddress || 'unknown'\<close>\<close>

definition clientKey :: "Request \<Rightarrow> string" where
  "clientKey req =
     (case ip req of
        Some a \<Rightarrow> if a \<noteq> [] then a
                  else (case remoteAddress req of
                          Some b \<Rightarrow> if b \<noteq> [] then b else ''unknown''
                        | None \<Rightarrow> ''unknown'')
      | None \<Rightarrow> (case remoteAddress req of
                   Some b \<Rightarrow> if b \<noteq> [] then b else ''unknown''
                 | None \<Rightarrow> ''unknown''))"

text \<open>
  The middleware that \<open>rateLimit(windowMs, maxRequests)\<close> returns, at time \<open>now\<close>. The
  entry it increments is the object held in the map, so the map holds the incremented
  entry afterwards. The three \<open>X-RateLimit\<close> headers it sets are not modelled.
\<close>

definition rateLimit ::
  "int \<Rightarrow> nat \<Rightarrow> Request \<Rightarrow> int \<Rightarrow> rateLimitStore \<Rightarrow> 'a outcome \<times> rateLimitStore" where
  "rateLimit windowMs maxRequests req now store =
     (let key = clientKey req;
          entry = (case store key of
                     None \<Rightarrow> \<lparr>count = 0, resetTime = now + windowMs\<rparr>
                   | Some e \<Rightarrow> if now > resetTime e
                               then \<lparr>count = 0, resetTime = now + windowMs\<rparr> else e);
          entry = entry\<lparr>count := count entry + 1\<rparr>;
          store = store(key \<mapsto> entry)
      in if count entry > maxRequests then
           (Sent (sendError ''RATE_LIMIT_EXCEEDED''
                    ''Too many requests. Please try again later.'' 429 None), store)
         else (Next req, store))"

definition authRateLimit :: "Request \<Rightarrow> int \<Rightarrow> rateLimitStore \<Rightarrow> 'a outcome \<times> rateLimitStore" where
  "authRateLimit = rateLimit (15 * 60 * 1000) 20"

text \<open>The sweep that \<open>setInterval\<close> runs every minute: expired entries are deleted.\<close>

definition cleanup :: "int \<Rightarrow> rateLimitStore \<Rightarrow> rateLimitStore" where
  "cleanup now store =
     (\<lambda>key. case store key of
               None \<Rightarrow> None
             | Some e \<Rightarrow> if now > resetTime e then None else Some e)"

text \<open>
  What happens to the limiter's map over time: requests to \<open>/auth/register\<close> or
  \<open>/auth/login\<close> (both routes run the one \<open>authRateLimit\<close>) and sweeps, each at its
  time. \<open>run\<close> processes them in order and lists, for each request, its client key and
  whether it was passed on to the handler.
\<close>

datatype event = Incoming Request int | Sweep int

fun event_time :: "event \<Rightarrow> int" where
  "event_time (Incoming _ t) = t"
| "event_time (Sweep t) = t"

fun run :: "event list \<Rightarrow> rateLimitStore \<Rightarrow> (string \<times> bool) list" where
  "run [] store = []"
| "run (Sweep t # evs) store = run evs (cleanup t store)"
| "run (Incoming req t # evs) store =
     (case (authRateLimit req t store :: unit outcome \<times> rateLimitStore) of
        (Sent _, store') \<Rightarrow> (clientKey req, False) # run evs store'
      | (Next _, store') \<Rightarrow> (clientKey req, True) # run evs store')"

text \<open>
  \<open>POST /auth/login\<close> and \<open>POST /auth/register\<close> (src/routes/auth.routes.ts): the
  limiter first, then the controller. The result is the response and the limiter's map;
  what the controller does to the users table is in \<open>register\<close> above.
\<close>

definition login_route ::
  "AuthServiceDeps \<Rightarrow> Request \<Rightarrow> int \<Rightarrow> LoginInput \<Rightarrow> users \<Rightarrow> rateLimitStore
     \<Rightarrow> AuthResponse Response \<times> rateLimitStore" where
  "login_route deps req now input tbl store =
     (case authRateLimit req now store of
        (Sent r, store') \<Rightarrow> (r, store')
      | (Next _, store') \<Rightarrow> (authController_login deps now input tbl, store'))"

definition register_route ::
  "AuthServiceDeps \<Rightarrow> (users \<Rightarrow> users) \<Rightarrow> string \<Rightarrow> Request \<Rightarrow> int \<Rightarrow> RegisterInput \<Rightarrow> users
     \<Rightarrow> rateLimitStore \<Rightarrow> AuthResponse Response \<times> rateLimitStore" where
  "register_route deps concurrent newId req now input tbl store =
     (case authRateLimit req now store of
        (Sent r, store') \<Rightarrow> (r, store')
      | (Next _, store') \<Rightarrow>
          (authController_register deps concurrent newId now input tbl, store'))"

text \<open>Whether an event is a request of the given client key.\<close>

fun from_key :: "string \<Rightarrow> event \<Rightarrow> bool" where
  "from_key key (Incoming req _) = (clientKey req = key)"
| "from_key key (Sweep _) = False"

text \<open>The decisions of \<open>run\<close> for one client key, in order.\<close>

definition decisions_for :: "string \<Rightarrow> (string \<times> bool) list \<Rightarrow> bool list" where
  "decisions_for key ds = map snd (filter (\<lambda>d. fst d = key) ds)"

section \<open>Fixtures for evaluating the model (tests/setup.ts, tests/auth.test.ts, prisma/seed.ts)\<close>

text \<open>
  Modelled from the spec: the Token Codec (\<open>sign(claim) -> token string\<close>,
  \<open>verify(token) -> claim | failure\<close>, with expiry). The jsonwebtoken library that
  implements it is not part of the repository. This instance issues the text
  \<open>jwt:role:userId\<close> and accepts the tokens of the two seeded subjects, under the key of
  the test setup, until the default lifetime of 24 hours (\<open>JWT_EXPIRES_IN\<close>) after time 0
  has passed. It serves to evaluate the gate on concrete requests; the theorems about the
  gate are stated for every codec.
\<close>

definition test_sign :: "int \<Rightarrow> JwtPayload \<Rightarrow> string" where
  "test_sign now payload = ''jwt:'' @ role payload @ '':'' @ userId payload"

definition test_verify :: jwt_verify where
  "test_verify token jwtSecret now =
     (if jwtSecret = ''test-secret-key-for-testing-only'' \<and> now < 86400000 then
        (if token = ''jwt:admin:admin-1'' then Some \<lparr>userId = ''admin-1'', role = ''admin''\<rparr>
         else if token = ''jwt:user:user-1'' then Some \<lparr>userId = ''user-1'', role = ''user''\<rparr>
         else None)
      else None)"

text \<open>
  A hasher that stands for bcrypt, the users of the tests and the seed, one project of the
  ordinary user, a request that carries only the given \<open>authorization\<close> header, and a
  concurrent registration that inserts its row between another registration's lookup and
  insert.
\<close>

definition test_deps :: AuthServiceDeps where
  "test_deps =
     \<lparr>passwordHasher_hash = (\<lambda>password. ''bcrypt:'' @ password),
      passwordHasher_compare = (\<lambda>password h. h = ''bcrypt:'' @ password),
      tokenSigner_sign = test_sign\<rparr>"

definition test_users :: users where
  "test_users =
     [\<lparr>user_id = ''user-1'', user_name = ''Test User'', user_email = ''test@example.com'',
       passwordHash = ''bcrypt:password123'', user_role = ''user'',
       user_createdAt = 0, user_updatedAt = 0\<rparr>,
      \<lparr>user_id = ''admin-1'', user_name = ''Admin User'', user_email = ''admin@example.com'',
       passwordHash = ''bcrypt:Admin@1234'', user_role = ''admin'',
       user_createdAt = 0, user_updatedAt = 0\<rparr>]"

definition test_projects :: projects where
  "test_projects =
     [''p1'' \<mapsto> \<lparr>project_id = ''p1'', title = ''Test Project'', description = None,
                 project_status = Todo, ownerId = ''user-1'', createdAt = 1, updatedAt = 1\<rparr>]"

definition test_request :: "string option \<Rightarrow> Request" where
  "test_request hdr = \<lparr>authorization = hdr, req_user = None, ip = Some ''127.0.0.1'',
                        remoteAddress = Some ''127.0.0.1''\<rparr>"

definition test_racer :: "users \<Rightarrow> users" where
  "test_racer tbl =
     tbl @ [\<lparr>user_id = ''user-3'', user_name = ''Racer'', user_email = ''new@example.com'',
             passwordHash = ''bcrypt:racer-pw'', user_role = ''user'',
             user_createdAt = 8, user_updatedAt = 8\<rparr>]"

section \<open>Ownership-scoped project operations: the proofs\<close>

lemmas error_entries = VALIDATION_ERROR_def UNAUTHORIZED_def FORBIDDEN_def NOT_FOUND_def
  CONFLICT_def INTERNAL_ERROR_def

lemma failure_code_AppError: "failure_code (AppError c m s) = c"
  by (simp add: failure_code_def sendError_def)

lemma build_updateData_id: "build_updateData input = input"
  by (cases input) (auto simp: build_updateData_def Let_def)

text \<open>
  C1. GetProject, UpdateProject and DeleteProject: when no project has the id, each fails
  with NOT_FOUND whoever the requester is; when the project exists and its owner is not
  the requester, each fails with FORBIDDEN. Existence is decided first: a failure with
  code NOT_FOUND occurs exactly when the id does not resolve.
\<close>

theorem project_ops_existence_before_ownership:
  "(db pid = None \<longrightarrow>
      getProjectById pid requester db
        = Inl (AppError ''NOT_FOUND'' ''Project not found.'' 404)
    \<and> updateProject now pid requester input db
        = Inl (AppError ''NOT_FOUND'' ''Project not found.'' 404)
    \<and> deleteProject pid requester db
        = Inl (AppError ''NOT_FOUND'' ''Project not found.'' 404))
   \<and> (\<forall>p. db pid = Some p \<and> ownerId p \<noteq> requester \<longrightarrow>
      getProjectById pid requester db
        = Inl (AppError ''FORBIDDEN''
                 ''You do not have permission to access this project.'' 403)
    \<and> updateProject now pid requester input db
        = Inl (AppError ''FORBIDDEN''
                 ''You do not have permission to modify this project.'' 403)
    \<and> deleteProject pid requester db
        = Inl (AppError ''FORBIDDEN''
                 ''You do not have permission to delete this project.'' 403))
   \<and> ((\<exists>e. getProjectById pid requester db = Inl e \<and> failure_code e = ''NOT_FOUND'')
          = (db pid = None))
   \<and> ((\<exists>e. updateProject now pid requester input db = Inl e
             \<and> failure_code e = ''NOT_FOUND'')
          = (db pid = None))
   \<and> ((\<exists>e. deleteProject pid requester db = Inl e \<and> failure_code e = ''NOT_FOUND'')
          = (db pid = None))"
  by (auto simp: getProjectById_def updateProject_def deleteProject_def error_entries
      failure_code_AppError prisma_project_update_def prisma_project_delete_def Let_def
      split: option.splits if_splits)

text \<open>
  The theorem at a store holding one project \<open>p1\<close> of owner \<open>alice\<close>: \<open>bob\<close> asking
  for the unknown id \<open>p2\<close> gets NOT_FOUND, and asking for \<open>p1\<close> gets FORBIDDEN.
\<close>

theorem project_ops_existence_before_ownership_witness:
  "[''p1'' \<mapsto> \<lparr>project_id = ''p1'', title = ''Test Project'', description = None,
        project_status = Todo, ownerId = ''alice'', createdAt = 1, updatedAt = 1\<rparr>] ''p2''
     = None
   \<and> deleteProject ''p2'' ''bob''
       [''p1'' \<mapsto> \<lparr>project_id = ''p1'', title = ''Test Project'', description = None,
          project_status = Todo, ownerId = ''alice'', createdAt = 1, updatedAt = 1\<rparr>]
     = Inl (AppError ''NOT_FOUND'' ''Project not found.'' 404)
   \<and> ownerId \<lparr>project_id = ''p1'', title = ''Test Project'', description = None,
        project_status = Todo, ownerId = ''alice'', createdAt = 1, updatedAt = 1\<rparr> \<noteq> ''bob''
   \<and> deleteProject ''p1'' ''bob''
       [''p1'' \<mapsto> \<lparr>project_id = ''p1'', title = ''Test Project'', description = None,
          project_status = Todo, ownerId = ''alice'', createdAt = 1, updatedAt = 1\<rparr>]
     = Inl (AppError ''FORBIDDEN''
              ''You do not have permission to delete this project.'' 403)"
  using
    project_ops_existence_before_ownership
      [of "[''p1'' \<mapsto> \<lparr>project_id = ''p1'', title = ''Test Project'', description = None,
              project_status = Todo, ownerId = ''alice'', createdAt = 1, updatedAt = 1\<rparr>]"
          "''p2''" "''bob''" 0 "\<lparr>upd_title = None, upd_description = None, upd_status = None\<rparr>"]
    project_ops_existence_before_ownership
      [of "[''p1'' \<mapsto> \<lparr>project_id = ''p1'', title = ''Test Project'', description = None,
              project_status = Todo, ownerId = ''alice'', createdAt = 1, updatedAt = 1\<rparr>]"
          "''p1''" "''bob''" 0 "\<lparr>upd_title = None, upd_description = None, upd_status = None\<rparr>"]
  by simp

text \<open>
  C2. UpdateProject on an existing project of the requester succeeds, and the returned
  record takes exactly the supplied fields from the input: a field the input omits keeps
  its prior value, a field it supplies has the supplied value. The id, owner and creation
  time are kept, and no other row of the table changes.
\<close>

theorem updateProject_partial_patch:
  assumes "db pid = Some p" and "ownerId p = requester"
  shows "\<exists>p'. updateProject now pid requester input db = Inr (p', db(pid \<mapsto> p'))
      \<and> (upd_title input = None \<longrightarrow> title p' = title p)
      \<and> (upd_description input = None \<longrightarrow> description p' = description p)
      \<and> (upd_status input = None \<longrightarrow> project_status p' = project_status p)
      \<and> (\<forall>t. upd_title input = Some t \<longrightarrow> title p' = t)
      \<and> (\<forall>d. upd_description input = Some d \<longrightarrow> description p' = Some d)
      \<and> (\<forall>s. upd_status input = Some s \<longrightarrow> project_status p' = s)
      \<and> project_id p' = project_id p \<and> ownerId p' = ownerId p
      \<and> createdAt p' = createdAt p"
  using assms
  by (simp add: updateProject_def prisma_project_update_def build_updateData_id Let_def)

text \<open>
  The theorem at the patch \<open>{status: "doing"}\<close> of a project with title \<open>T\<close> and
  description \<open>D\<close>: the title and description are unchanged and the status is \<open>doing\<close>.
\<close>

theorem updateProject_partial_patch_witness:
  "[''p1'' \<mapsto> \<lparr>project_id = ''p1'', title = ''T'', description = Some ''D'',
        project_status = Todo, ownerId = ''alice'', createdAt = 1, updatedAt = 1\<rparr>] ''p1''
     = Some \<lparr>project_id = ''p1'', title = ''T'', description = Some ''D'',
        project_status = Todo, ownerId = ''alice'', createdAt = 1, updatedAt = 1\<rparr>
   \<and> (\<exists>p' db'. updateProject 7 ''p1'' ''alice''
         \<lparr>upd_title = None, upd_description = None, upd_status = Some Doing\<rparr>
         [''p1'' \<mapsto> \<lparr>project_id = ''p1'', title = ''T'', description = Some ''D'',
            project_status = Todo, ownerId = ''alice'', createdAt = 1, updatedAt = 1\<rparr>]
       = Inr (p', db')
       \<and> title p' = ''T'' \<and> description p' = Some ''D'' \<and> project_status p' = Doing)"
  using
    updateProject_partial_patch
      [of "[''p1'' \<mapsto> \<lparr>project_id = ''p1'', title = ''T'', description = Some ''D'',
              project_status = Todo, ownerId = ''alice'', createdAt = 1, updatedAt = 1\<rparr>]"
          "''p1''"
          "\<lparr>project_id = ''p1'', title = ''T'', description = Some ''D'',
              project_status = Todo, ownerId = ''alice'', createdAt = 1, updatedAt = 1\<rparr>"
          "''alice''" 7
          "\<lparr>upd_title = None, upd_description = None, upd_status = Some Doing\<rparr>"]
  by auto

section \<open>The auth service: the proofs\<close>

lemmas fixtures = test_sign_def test_verify_def test_deps_def test_users_def
  test_projects_def test_request_def test_racer_def

lemma findByEmail_append_new:
  "user_email u = e \<Longrightarrow> findByEmail e (tbl @ [u]) \<noteq> None"
  by (auto simp: findByEmail_def find_None_iff)

lemma register_Inr_D:
  assumes "register deps concurrent newId now input tbl = Inr (r, tbl')"
  shows "\<exists>u. tbl' = concurrent tbl @ [u] \<and> user_email u = reg_email input
           \<and> user_id u = newId \<and> user_role u = ''user''
           \<and> passwordHash u = passwordHasher_hash deps (reg_password input)
           \<and> auth_user r = sanitizeUser u
           \<and> auth_token r = tokenSigner_sign deps now \<lparr>userId = newId, role = ''user''\<rparr>"
  using assms
  by (auto simp: register_def prisma_user_create_def Let_def
      split: option.splits if_splits sum.splits)

lemma find_Some_mem: "find P xs = Some x \<Longrightarrow> x \<in> set xs \<and> P x"
  by (induction xs) (auto split: if_splits)

lemma test_users_lookup_none: "findByEmail ''nonexistent@example.com'' test_users = None"
  by (simp add: findByEmail_def test_users_def)

lemma test_users_lookup_user: "findByEmail ''test@example.com'' test_users = Some (hd test_users)"
  by (simp add: findByEmail_def test_users_def)

lemma test_users_wrong_password:
  "\<not> passwordHasher_compare test_deps ''wrongpassword'' (passwordHash (hd test_users))"
  by (simp add: test_deps_def test_users_def)

lemma test_racer_wins:
  "findByEmail ''new@example.com'' test_users = None
   \<and> findByEmail ''new@example.com'' (test_racer test_users) \<noteq> None"
  by (simp add: findByEmail_def test_users_def test_racer_def)

lemma test_users_by_id: "findById ''deleted-user'' test_users = None"
  by (simp add: findById_def test_users_def)

text \<open>
  C3. Login fails in two ways, an email that resolves to no user and a password that does
  not match the stored hash, and both throw the same value: code UNAUTHORIZED, status 401
  and the message \<open>Invalid email or password.\<close> Every failure of \<open>login\<close> is that value,
  and the response the controller sends for it is the same envelope.
\<close>

theorem login_failures_identical:
  "(findByEmail (login_email input) tbl = None \<longrightarrow>
      login deps now input tbl
        = Inl (AppError ''UNAUTHORIZED'' ''Invalid email or password.'' 401))
   \<and> (\<forall>u. findByEmail (login_email input) tbl = Some u
          \<and> \<not> passwordHasher_compare deps (login_password input) (passwordHash u) \<longrightarrow>
      login deps now input tbl
        = Inl (AppError ''UNAUTHORIZED'' ''Invalid email or password.'' 401))
   \<and> (\<forall>e. login deps now input tbl = Inl e \<longrightarrow>
        e = AppError ''UNAUTHORIZED'' ''Invalid email or password.'' 401
      \<and> authController_login deps now input tbl
          = sendError ''UNAUTHORIZED'' ''Invalid email or password.'' 401 None)"
  by (auto simp: login_def authController_login_def error_entries Let_def
      split: option.splits if_splits)

text \<open>
  The theorem at the two failing logins of tests/auth.test.ts: an unknown email, and the
  registered email with a wrong password.
\<close>

theorem login_failures_identical_witness:
  "findByEmail ''nonexistent@example.com'' test_users = None
   \<and> login test_deps 5 \<lparr>login_email = ''nonexistent@example.com'',
         login_password = ''password123''\<rparr> test_users
       = Inl (AppError ''UNAUTHORIZED'' ''Invalid email or password.'' 401)
   \<and> findByEmail ''test@example.com'' test_users = Some (hd test_users)
   \<and> \<not> passwordHasher_compare test_deps ''wrongpassword'' (passwordHash (hd test_users))
   \<and> login test_deps 5 \<lparr>login_email = ''test@example.com'',
         login_password = ''wrongpassword''\<rparr> test_users
       = Inl (AppError ''UNAUTHORIZED'' ''Invalid email or password.'' 401)"
proof -
  have absent: "login test_deps 5 \<lparr>login_email = ''nonexistent@example.com'',
         login_password = ''password123''\<rparr> test_users
       = Inl (AppError ''UNAUTHORIZED'' ''Invalid email or password.'' 401)"
    using login_failures_identical
      [where input = "\<lparr>login_email = ''nonexistent@example.com'',
                          login_password = ''password123''\<rparr>"
         and tbl = test_users and deps = test_deps and now = 5, THEN conjunct1]
      test_users_lookup_none
    by simp
  have wrong: "login test_deps 5 \<lparr>login_email = ''test@example.com'',
         login_password = ''wrongpassword''\<rparr> test_users
       = Inl (AppError ''UNAUTHORIZED'' ''Invalid email or password.'' 401)"
    using login_failures_identical
      [where input = "\<lparr>login_email = ''test@example.com'',
                          login_password = ''wrongpassword''\<rparr>"
         and tbl = test_users and deps = test_deps and now = 5,
         THEN conjunct2, THEN conjunct1, rule_format, of "hd test_users"]
      test_users_lookup_user test_users_wrong_password
    by simp
  show ?thesis
    using absent wrong test_users_lookup_none test_users_lookup_user test_users_wrong_password
    by blast
qed

text \<open>
  C4. Register throws CONFLICT when the lookup finds the email. When the lookup finds
  nothing but the email is in the table by the time of the insert (a concurrent
  registration), the store's \<open>P2002\<close> propagates and \<open>errorHandler\<close> answers it with
  status 409 and code CONFLICT. After a successful registration, any further registration
  with the same email is refused with CONFLICT, whatever its other fields are.
\<close>

theorem register_conflict:
  "(\<forall>u. findByEmail (reg_email input) tbl = Some u \<longrightarrow>
      register deps concurrent newId now input tbl
        = Inl (AppError ''CONFLICT'' ''A user with this email already exists.'' 409))
   \<and> (findByEmail (reg_email input) tbl = None
        \<and> findByEmail (reg_email input) (concurrent tbl) \<noteq> None \<longrightarrow>
      (\<exists>t. register deps concurrent newId now input tbl
              = Inl (PrismaClientKnownRequestError ''P2002'' t))
      \<and> res_status (authController_register deps concurrent newId now input tbl) = 409
      \<and> (\<exists>m. res_json (authController_register deps concurrent newId now input tbl)
              = ErrorResponse ''CONFLICT'' m None))
   \<and> (\<forall>r tbl'. register deps concurrent newId now input tbl = Inr (r, tbl')
          \<and> reg_email input2 = reg_email input \<longrightarrow>
      register deps2 concurrent2 newId2 now2 input2 tbl'
        = Inl (AppError ''CONFLICT'' ''A user with this email already exists.'' 409)
      \<and> res_status (authController_register deps2 concurrent2 newId2 now2 input2 tbl') = 409)"
proof (intro conjI allI impI)
  fix u assume "findByEmail (reg_email input) tbl = Some u"
  then show "register deps concurrent newId now input tbl
        = Inl (AppError ''CONFLICT'' ''A user with this email already exists.'' 409)"
    by (simp add: register_def error_entries)
next
  assume a: "findByEmail (reg_email input) tbl = None
        \<and> findByEmail (reg_email input) (concurrent tbl) \<noteq> None"
  then show "\<exists>t. register deps concurrent newId now input tbl
              = Inl (PrismaClientKnownRequestError ''P2002'' t)"
    by (auto simp: register_def prisma_user_create_def Let_def)
  then show "res_status (authController_register deps concurrent newId now input tbl) = 409"
    by (auto simp: authController_register_def sendError_def error_entries)
  from a show "\<exists>m. res_json (authController_register deps concurrent newId now input tbl)
              = ErrorResponse ''CONFLICT'' m None"
    by (auto simp: authController_register_def register_def prisma_user_create_def Let_def
        sendError_def error_entries)
next
  fix r tbl'
  assume a: "register deps concurrent newId now input tbl = Inr (r, tbl')
          \<and> reg_email input2 = reg_email input"
  then obtain u where "tbl' = concurrent tbl @ [u]" "user_email u = reg_email input"
    using register_Inr_D by blast
  with a have "findByEmail (reg_email input2) tbl' \<noteq> None"
    by (simp add: findByEmail_append_new)
  then show c: "register deps2 concurrent2 newId2 now2 input2 tbl'
        = Inl (AppError ''CONFLICT'' ''A user with this email already exists.'' 409)"
    by (auto simp: register_def error_entries)
  show "res_status (authController_register deps2 concurrent2 newId2 now2 input2 tbl') = 409"
    by (simp add: authController_register_def c sendError_def)
qed

text \<open>
  The theorem at a second registration of \<open>test@example.com\<close>, and at a registration
  that loses the race against \<open>test_racer\<close>.
\<close>

theorem register_conflict_witness:
  "findByEmail ''test@example.com'' test_users = Some (hd test_users)
   \<and> register test_deps id ''user-2'' 9
        \<lparr>reg_name = ''Test User 2'', reg_email = ''test@example.com'',
         reg_password = ''password123''\<rparr> test_users
       = Inl (AppError ''CONFLICT'' ''A user with this email already exists.'' 409)
   \<and> findByEmail ''new@example.com'' test_users = None
   \<and> findByEmail ''new@example.com'' (test_racer test_users) \<noteq> None
   \<and> res_status (authController_register test_deps test_racer ''user-4'' 9
        \<lparr>reg_name = ''New User'', reg_email = ''new@example.com'',
         reg_password = ''password123''\<rparr> test_users) = 409"
proof -
  have present: "register test_deps id ''user-2'' 9
        \<lparr>reg_name = ''Test User 2'', reg_email = ''test@example.com'',
         reg_password = ''password123''\<rparr> test_users
       = Inl (AppError ''CONFLICT'' ''A user with this email already exists.'' 409)"
    using register_conflict
      [where input = "\<lparr>reg_name = ''Test User 2'', reg_email = ''test@example.com'',
                          reg_password = ''password123''\<rparr>"
         and tbl = test_users and deps = test_deps and concurrent = id
         and newId = "''user-2''" and now = 9,
         THEN conjunct1, rule_format, of "hd test_users"]
      test_users_lookup_user
    by simp
  have race: "res_status (authController_register test_deps test_racer ''user-4'' 9
        \<lparr>reg_name = ''New User'', reg_email = ''new@example.com'',
         reg_password = ''password123''\<rparr> test_users) = 409"
    using register_conflict
      [where input = "\<lparr>reg_name = ''New User'', reg_email = ''new@example.com'',
                          reg_password = ''password123''\<rparr>"
         and tbl = test_users and deps = test_deps and concurrent = test_racer
         and newId = "''user-4''" and now = 9,
         THEN conjunct2, THEN conjunct1]
      test_racer_wins
    by simp
  show ?thesis
    using present race test_users_lookup_user test_racer_wins by blast
qed

text \<open>
  C8. The user object that Register, Login and GetCurrentUser return is \<open>sanitizeUser\<close>
  of a stored user: its properties are exactly id, name, email, role, createdAt and
  updatedAt, it has no property passwordHash, and it does not depend on the stored hash.
  GetCurrentUser fails with NOT_FOUND when the subject id resolves to no stored user, and
  the controller of \<open>GET /auth/me\<close> answers with that error.
\<close>

theorem outward_user_is_sanitized:
  "map fst (sanitizeUser u) = [''id'', ''name'', ''email'', ''role'', ''createdAt'', ''updatedAt'']
   \<and> map_of (sanitizeUser u) ''passwordHash'' = None
   \<and> sanitizeUser (u\<lparr>passwordHash := h\<rparr>) = sanitizeUser u
   \<and> (\<forall>r tbl'. register deps concurrent newId now rinput tbl = Inr (r, tbl') \<longrightarrow>
         (\<exists>x. x \<in> set tbl' \<and> auth_user r = sanitizeUser x))
   \<and> (\<forall>r. login deps now linput tbl = Inr r \<longrightarrow>
         (\<exists>x. x \<in> set tbl \<and> auth_user r = sanitizeUser x))
   \<and> (\<forall>r. getCurrentUser uid tbl = Inr r \<longrightarrow>
         (\<exists>x. x \<in> set tbl \<and> r = sanitizeUser x))
   \<and> (findById uid tbl = None \<longrightarrow>
         getCurrentUser uid tbl = Inl (AppError ''NOT_FOUND'' ''User not found.'' 404)
       \<and> authController_me \<lparr>authorization = hdr, req_user = Some \<lparr>userId = uid, role = rl\<rparr>,
            ip = a, remoteAddress = b\<rparr> tbl
          = sendError ''NOT_FOUND'' ''User not found.'' 404 None)"
proof (intro conjI allI impI)
  fix r tbl' assume "register deps concurrent newId now rinput tbl = Inr (r, tbl')"
  then show "\<exists>x. x \<in> set tbl' \<and> auth_user r = sanitizeUser x"
    using register_Inr_D by fastforce
next
  fix r assume "login deps now linput tbl = Inr r"
  then show "\<exists>x. x \<in> set tbl \<and> auth_user r = sanitizeUser x"
    by (auto simp: login_def findByEmail_def Let_def dest: find_Some_mem
        split: option.splits if_splits)
next
  fix r assume "getCurrentUser uid tbl = Inr r"
  then show "\<exists>x. x \<in> set tbl \<and> r = sanitizeUser x"
    by (auto simp: getCurrentUser_def findById_def dest: find_Some_mem split: option.splits)
qed (simp_all add: sanitizeUser_def getCurrentUser_def authController_me_def error_entries)

text \<open>
  The theorem at a subject id that is not in the table.
\<close>

theorem outward_user_is_sanitized_witness:
  "findById ''deleted-user'' test_users = None
   \<and> getCurrentUser ''deleted-user'' test_users
       = Inl (AppError ''NOT_FOUND'' ''User not found.'' 404)
   \<and> map_of (sanitizeUser (hd test_users)) ''passwordHash'' = None"
proof -
  note t = outward_user_is_sanitized
      [where u = "hd test_users" and uid = "''deleted-user''" and tbl = test_users
         and h = "[]" and deps = test_deps and concurrent = id and newId = "[]" and now = 0
         and rinput = "\<lparr>reg_name = [], reg_email = [], reg_password = []\<rparr>"
         and linput = "\<lparr>login_email = [], login_password = []\<rparr>"
         and hdr = None and rl = "[]" and a = None and b = None]
  have "getCurrentUser ''deleted-user'' test_users
       = Inl (AppError ''NOT_FOUND'' ''User not found.'' 404)"
    using t test_users_by_id by blast
  moreover have "map_of (sanitizeUser (hd test_users)) ''passwordHash'' = None"
    using t by blast
  ultimately show ?thesis using test_users_by_id by blast
qed

section \<open>The rate limiter: the proofs\<close>

lemma authRateLimit_open_window:
  assumes "store (clientKey req) = Some e" and "t \<le> resetTime e"
  shows "(authRateLimit req t store :: unit outcome \<times> rateLimitStore)
     = (if count e < 20 then Next req
        else Sent (sendError ''RATE_LIMIT_EXCEEDED''
                     ''Too many requests. Please try again later.'' 429 None),
        store(clientKey req \<mapsto> e\<lparr>count := count e + 1\<rparr>))"
  using assms by (auto simp: authRateLimit_def rateLimit_def Let_def)

lemma authRateLimit_new_window:
  assumes "store (clientKey req) = None
           \<or> (\<exists>e. store (clientKey req) = Some e \<and> resetTime e < t)"
  shows "(authRateLimit req t store :: unit outcome \<times> rateLimitStore)
     = (Next req, store(clientKey req \<mapsto> \<lparr>count = 1, resetTime = t + 900000\<rparr>))"
  using assms by (auto simp: authRateLimit_def rateLimit_def Let_def)

lemma authRateLimit_Sent:
  "authRateLimit req t store = (Sent r, store') \<Longrightarrow>
     r = sendError ''RATE_LIMIT_EXCEEDED'' ''Too many requests. Please try again later.'' 429 None"
  by (auto simp: authRateLimit_def rateLimit_def Let_def split: if_splits)

lemma rate_limited_routes:
  "authRateLimit req t store = (Sent r, store') \<Longrightarrow>
     login_route deps req t linput tbl store = (r, store')
     \<and> register_route deps concurrent newId req t rinput tbl store = (r, store')"
  by (simp add: login_route_def register_route_def)

lemma authRateLimit_other_key:
  "key \<noteq> clientKey req \<Longrightarrow>
     snd (authRateLimit req t store :: unit outcome \<times> rateLimitStore) key = store key"
  by (auto simp: authRateLimit_def rateLimit_def Let_def)

lemma cleanup_open_window:
  "store key = Some e \<Longrightarrow> t \<le> resetTime e \<Longrightarrow> cleanup t store key = Some e"
  by (simp add: cleanup_def)

lemma decisions_for_Cons:
  "decisions_for key ((k, b) # ds)
     = (if k = key then b # decisions_for key ds else decisions_for key ds)"
  by (simp add: decisions_for_def)

lemma map_upt_shift:
  "(c < (20::nat)) # map (\<lambda>i. Suc c + i < 20) [0..<n] = map (\<lambda>i. c + i < 20) [0..<Suc n]"
proof -
  have "map (\<lambda>i. c + i < 20) [0..<Suc n] = (c + 0 < 20) # map (\<lambda>i. c + i < 20) [Suc 0..<Suc n]"
    by (simp add: upt_conv_Cons del: upt_Suc)
  also have "map (\<lambda>i. c + i < 20) [Suc 0..<Suc n] = map (\<lambda>i. Suc c + i < 20) [0..<n]"
    by (simp add: map_Suc_upt [symmetric] del: upt_Suc)
  finally show ?thesis by simp
qed

lemma window_decisions:
  assumes "store key = Some e" and "\<forall>ev \<in> set evs. event_time ev \<le> resetTime e"
  shows "decisions_for key (run evs store)
     = map (\<lambda>i. count e + i < 20) [0..<length (filter (from_key key) evs)]"
  using assms
proof (induction evs arbitrary: store e)
  case Nil
  then show ?case by (simp add: decisions_for_def)
next
  case (Cons ev evs)
  show ?case
  proof (cases ev)
    case (Sweep t)
    with Cons.prems have "cleanup t store key = Some e"
      by (simp add: cleanup_open_window)
    with Cons.IH [of "cleanup t store" e] Cons.prems Sweep show ?thesis by simp
  next
    case (Incoming req t)
    show ?thesis
    proof (cases "clientKey req = key")
      case True
      let ?e' = "e\<lparr>count := count e + 1\<rparr>"
      let ?store' = "store(key \<mapsto> ?e')"
      from Cons.prems Incoming have t: "t \<le> resetTime e" by simp
      have step: "(authRateLimit req t store :: unit outcome \<times> rateLimitStore)
          = (if count e < 20 then Next req
             else Sent (sendError ''RATE_LIMIT_EXCEEDED''
                     ''Too many requests. Please try again later.'' 429 None), ?store')"
        using authRateLimit_open_window [of store req e t] Cons.prems(1) True t by simp
      have s': "?store' key = Some ?e'" by simp
      have r': "\<forall>ev \<in> set evs. event_time ev \<le> resetTime ?e'"
        using Cons.prems(2) by simp
      have "decisions_for key (run evs ?store')
          = map (\<lambda>i. count ?e' + i < 20) [0..<length (filter (from_key key) evs)]"
        by (rule Cons.IH [of ?store' ?e', OF s' r'])
      moreover have "count ?e' = Suc (count e)" by simp
      ultimately have ih: "decisions_for key (run evs ?store')
          = map (\<lambda>i. Suc (count e) + i < 20) [0..<length (filter (from_key key) evs)]"
        by (simp only:)
      have "decisions_for key (run (ev # evs) store)
          = (count e < 20) # decisions_for key (run evs ?store')"
        using Incoming True step by (simp add: decisions_for_Cons)
      also note ih
      also note map_upt_shift [of "count e" "length (filter (from_key key) evs)"]
      finally show ?thesis using Incoming True by simp
    next
      case False
      obtain o' store' where r: "(authRateLimit req t store :: unit outcome \<times> rateLimitStore)
          = (o', store')"
        by (cases "authRateLimit req t store :: unit outcome \<times> rateLimitStore") auto
      have "store' key = Some e"
        using authRateLimit_other_key [of key req t store] False r Cons.prems(1) by simp
      then have ih: "decisions_for key (run evs store')
          = map (\<lambda>i. count e + i < 20) [0..<length (filter (from_key key) evs)]"
        using Cons.IH [of store' e] Cons.prems(2) by simp
      have "decisions_for key (run (ev # evs) store) = decisions_for key (run evs store')"
        using Incoming False r by (cases o') (simp_all add: decisions_for_Cons)
      with ih Incoming False show ?thesis by simp
    qed
  qed
qed

lemma admitted_count: "length (filter id (map (\<lambda>i. i < (20::nat)) [0..<n])) = min n 20"
  by (induction n) auto

lemma test_request_key: "clientKey (test_request hdr) = ''127.0.0.1''"
  by (simp add: clientKey_def test_request_def)

text \<open>
  C9. The limiter of \<open>/auth/register\<close> and \<open>/auth/login\<close> within one window. A request
  of a client key at time \<open>t0\<close> that finds no entry, or an entry whose reset time has
  passed, starts the count again and is passed on; its window ends at \<open>t0 + 900000\<close>
  (15 minutes). Of the requests of that key up to the end of the window, whatever other
  keys do and whenever the sweep runs, exactly the first 20 are passed on: at most 20 are
  admitted, and every later one is refused. A refusal is the response with status 429 and
  code RATE_LIMIT_EXCEEDED, and it is the whole answer of the login and register routes:
  the controller does not run.
\<close>

theorem auth_rate_limit_window:
  assumes "clientKey req = key"
    and "store key = None \<or> (\<exists>e. store key = Some e \<and> resetTime e < t0)"
    and "\<forall>ev \<in> set evs. event_time ev \<le> t0 + 900000"
  shows "decisions_for key (run (Incoming req t0 # evs) store)
           = map (\<lambda>i. i < 20) [0..<Suc (length (filter (from_key key) evs))]
       \<and> length (filter id (decisions_for key (run (Incoming req t0 # evs) store))) \<le> 20
       \<and> (\<forall>r store'. (authRateLimit req1 t1 store1 :: AuthResponse outcome \<times> rateLimitStore)
                          = (Sent r, store') \<longrightarrow>
              r = sendError ''RATE_LIMIT_EXCEEDED''
                    ''Too many requests. Please try again later.'' 429 None
            \<and> login_route deps req1 t1 linput tbl store1 = (r, store')
            \<and> register_route deps concurrent newId req1 t1 rinput tbl store1 = (r, store'))
       \<and> (authRateLimit req t0 store :: unit outcome \<times> rateLimitStore)
           = (Next req, store(key \<mapsto> \<lparr>count = 1, resetTime = t0 + 900000\<rparr>))"
proof -
  let ?e = "\<lparr>count = 1, resetTime = t0 + 900000\<rparr>"
  let ?store' = "store(key \<mapsto> ?e)"
  have first: "(authRateLimit req t0 store :: unit outcome \<times> rateLimitStore) = (Next req, ?store')"
    using authRateLimit_new_window [of store req t0] assms(1,2) by simp
  have s': "?store' key = Some ?e" by simp
  have r': "\<forall>ev \<in> set evs. event_time ev \<le> resetTime ?e" using assms(3) by simp
  have rest: "decisions_for key (run evs ?store')
      = map (\<lambda>i. count ?e + i < 20) [0..<length (filter (from_key key) evs)]"
    by (rule window_decisions [of ?store' key ?e, OF s' r'])
  have "decisions_for key (run (Incoming req t0 # evs) store)
      = True # decisions_for key (run evs ?store')"
    using first assms(1) by (simp add: decisions_for_Cons)
  also have "\<dots> = (0 < (20::nat)) # map (\<lambda>i. Suc 0 + i < 20)
                                      [0..<length (filter (from_key key) evs)]"
    using rest by simp
  also have "\<dots> = map (\<lambda>i. 0 + i < 20) [0..<Suc (length (filter (from_key key) evs))]"
    by (rule map_upt_shift)
  finally have d: "decisions_for key (run (Incoming req t0 # evs) store)
      = map (\<lambda>i. i < 20) [0..<Suc (length (filter (from_key key) evs))]"
    by simp
  have "length (filter id (decisions_for key (run (Incoming req t0 # evs) store))) \<le> 20"
    unfolding d admitted_count by simp
  with d first assms(1) show ?thesis
    using authRateLimit_Sent [of req1 t1 store1]
      rate_limited_routes [of req1 t1 store1 _ _ deps linput tbl concurrent newId rinput]
    by blast
qed

text \<open>
  The theorem at 21 requests of one address within a minute: twenty are passed on and the
  twenty-first is refused.
\<close>

theorem auth_rate_limit_window_witness:
  "clientKey (test_request None) = ''127.0.0.1''
   \<and> Map.empty ''127.0.0.1'' = (None :: RateLimitEntry option)
   \<and> decisions_for ''127.0.0.1''
        (run (Incoming (test_request None) 0 # replicate 20 (Incoming (test_request None) 60000))
           Map.empty)
       = replicate 20 True @ [False]"
proof -
  have evs: "\<forall>ev \<in> set (replicate 20 (Incoming (test_request None) 60000)).
               event_time ev \<le> 0 + 900000"
    by simp
  have n: "length (filter (from_key ''127.0.0.1'')
             (replicate 20 (Incoming (test_request None) 60000))) = 20"
    by (simp add: test_request_key)
  have fresh: "(Map.empty :: rateLimitStore) ''127.0.0.1'' = None
      \<or> (\<exists>e. (Map.empty :: rateLimitStore) ''127.0.0.1'' = Some e \<and> resetTime e < 0)"
    by simp
  have "decisions_for ''127.0.0.1''
        (run (Incoming (test_request None) 0 # replicate 20 (Incoming (test_request None) 60000))
           Map.empty)
       = map (\<lambda>i. i < 20)
           [0..<Suc (length (filter (from_key ''127.0.0.1'')
                       (replicate 20 (Incoming (test_request None) 60000))))]"
    by (rule auth_rate_limit_window
      [of "test_request None" "''127.0.0.1''" Map.empty 0
          "replicate 20 (Incoming (test_request None) 60000)",
       OF test_request_key fresh evs, THEN conjunct1])
  also have "\<dots> = map (\<lambda>i. i < 20) [0..<Suc 20]"
    unfolding n by (rule refl)
  also have "map (\<lambda>i. i < (20::nat)) [0..<Suc 20] = replicate 20 True @ [False]"
    by code_simp
  finally show ?thesis by (simp add: test_request_key)
qed

section \<open>Pagination parsing: the proofs\<close>

lemma parseInt_abc: "parseInt ''abc'' = NaN"
  by (simp add: parseInt_def isWhiteSpace_def isDigit_def Let_def)

text \<open>
  Where \<open>parseInt\<close> reads a number the transforms do clamp: an absent field gives the
  defaults 10 and 0, and a result that is a number lies in \<open>[1, 50]\<close> for the limit and
  is at least 0 for the offset.
\<close>

lemma paginationSchema_numeric:
  "(limit_transform None = Num 10) \<and> (offset_transform None = Num 0)
   \<and> (limit_transform v = NaN \<or> (\<exists>n. limit_transform v = Num n \<and> 1 \<le> n \<and> n \<le> 50))
   \<and> (offset_transform v = NaN \<or> (\<exists>n. offset_transform v = Num n \<and> 0 \<le> n))"
proof -
  have ten: "parseInt ''10'' = Num 10"
    by (simp add: parseInt_def isWhiteSpace_def isDigit_def digits_value_def digit_value_def Let_def)
  have zero: "parseInt ''0'' = Num 0"
    by (simp add: parseInt_def isWhiteSpace_def isDigit_def digits_value_def digit_value_def Let_def)
  have l: "limit_transform v = NaN \<or> (\<exists>n. limit_transform v = Num n \<and> 1 \<le> n \<and> n \<le> 50)"
    unfolding limit_transform_def Let_def
    by (cases "parseInt (case v of None \<Rightarrow> ''10'' | Some v \<Rightarrow> if v = [] then ''10'' else v)")
       auto
  have o: "offset_transform v = NaN \<or> (\<exists>n. offset_transform v = Num n \<and> 0 \<le> n)"
    unfolding offset_transform_def Let_def
    by (cases "parseInt (case v of None \<Rightarrow> ''0'' | Some v \<Rightarrow> if v = [] then ''0'' else v)")
       auto
  show ?thesis using l o by (simp add: limit_transform_def offset_transform_def ten zero)
qed

text \<open>
  C5. The parsed limit is meant to lie in \<open>[1, 50]\<close> and the parsed offset to be at least
  0 for every string. At the query \<open>?limit=abc&offset=abc\<close> they do not: \<open>parseInt\<close>
  finds no digit and returns \<open>NaN\<close>, \<open>Math.max\<close> and \<open>Math.min\<close> hand it on, and both
  parsed fields are \<open>NaN\<close>.
\<close>

theorem paginationSchema_non_numeric:
  "paginationSchema_parse (Some ''abc'') (Some ''abc'') = \<lparr>pg_limit = NaN, pg_offset = NaN\<rparr>"
  by (simp add: paginationSchema_parse_def limit_transform_def offset_transform_def
      parseInt_abc Let_def)

section \<open>The authorization gate: the proofs\<close>

lemma test_verify_admin:
  "test_verify ''jwt:admin:admin-1'' ''test-secret-key-for-testing-only'' 5
     = Some \<lparr>userId = ''admin-1'', role = ''admin''\<rparr>"
  by (simp add: test_verify_def)

lemma test_verify_user:
  "test_verify ''jwt:user:user-1'' ''test-secret-key-for-testing-only'' 5
     = Some \<lparr>userId = ''user-1'', role = ''user''\<rparr>"
  by (simp add: test_verify_def)

lemma test_verify_invalid:
  "test_verify ''invalid-token'' ''test-secret-key-for-testing-only'' 5 = None"
  by (simp add: test_verify_def)

lemma test_verify_expired:
  "test_verify ''jwt:admin:admin-1'' ''test-secret-key-for-testing-only'' 86400000 = None"
  by (simp add: test_verify_def)

lemma authenticate_Bearer:
  "authenticate verify secret now (test_request (Some (''Bearer '' @ token)))
     = (case verify token secret now of
          Some payload \<Rightarrow> Next ((test_request (Some (''Bearer '' @ token)))\<lparr>req_user := Some payload\<rparr>)
        | None \<Rightarrow> Sent (sendError ''UNAUTHORIZED'' ''Invalid or expired token.'' 401 None))"
  by (simp add: authenticate_def test_request_def startsWith_def error_entries Let_def
      split: option.splits)

lemma admin_delete_route_authenticated:
  assumes "authorization req = Some h" and "startsWith h ''Bearer ''"
    and "verify (drop 7 h) secret now = Some u"
  shows "admin_delete_route verify secret now req pid db =
          (if role u \<noteq> ''admin'' then
             (sendError ''FORBIDDEN'' ''Admin access required.'' 403 None, db)
           else case db_projects db pid of
                  None \<Rightarrow> (sendError ''NOT_FOUND'' ''Project not found.'' 404 None, db)
                | Some p \<Rightarrow> (sendSuccess ''Project deleted successfully'' 200,
                             db\<lparr>db_projects := (db_projects db)(pid := None)\<rparr>))"
proof -
  have a: "(authenticate verify secret now req :: string outcome)
      = Next (req\<lparr>req_user := Some u\<rparr>)"
    using assms by (auto simp: authenticate_def startsWith_def Let_def)
  show ?thesis
    by (simp add: admin_delete_route_def admin_gate_def a requireAdmin_def
        adminController_deleteProject_def adminDeleteProject_def prisma_project_delete_def
        error_entries split: option.splits)
qed

lemma test_admin_header:
  "authorization (test_request (Some ''Bearer jwt:admin:admin-1'')) = Some ''Bearer jwt:admin:admin-1''
   \<and> startsWith ''Bearer jwt:admin:admin-1'' ''Bearer ''
   \<and> test_verify (drop 7 ''Bearer jwt:admin:admin-1'') ''test-secret-key-for-testing-only'' 5
       = Some \<lparr>userId = ''admin-1'', role = ''admin''\<rparr>"
  using test_verify_admin by (simp add: test_request_def startsWith_def)

lemma test_projects_p1: "test_projects ''p1'' \<noteq> None \<and> test_projects(''p1'' := None) = Map.empty"
  by (auto simp: test_projects_def)

lemma admin_delete_route_cases:
  "admin_delete_route verify secret now req pid db =
     (case authenticate verify secret now req of
        Sent r \<Rightarrow> (r, db)
      | Next q \<Rightarrow>
          (case req_user q of
             None \<Rightarrow> (sendError ''UNAUTHORIZED'' ''Authentication required.'' 401 None, db)
           | Some u \<Rightarrow>
               if role u \<noteq> ''admin'' then
                 (sendError ''FORBIDDEN'' ''Admin access required.'' 403 None, db)
               else case db_projects db pid of
                  None \<Rightarrow> (sendError ''NOT_FOUND'' ''Project not found.'' 404 None, db)
                | Some p \<Rightarrow> (sendSuccess ''Project deleted successfully'' 200,
                             db\<lparr>db_projects := (db_projects db)(pid := None)\<rparr>)))"
  by (simp add: admin_delete_route_def admin_gate_def requireAdmin_def
      adminController_deleteProject_def adminDeleteProject_def prisma_project_delete_def
      error_entries split: option.splits outcome.splits)

lemma admin_delete_route_header_only:
  assumes "authorization req1 = authorization req2" and "db_projects db1 = db_projects db2"
  shows "fst (admin_delete_route verify secret now req1 pid db1)
       = fst (admin_delete_route verify secret now req2 pid db2)"
  using assms
  by (auto simp: admin_delete_route_cases authenticate_def Let_def
      split: option.splits if_splits)

lemma admin_gate_rejection:
  assumes "admin_gate verify secret now req1 = Sent r"
    and "authorization req1 = authorization req2"
  shows "admin_delete_route verify secret now req2 pid db = (r, db)"
proof -
  have "admin_gate verify secret now req2 = Sent r"
    using assms
    by (auto simp: admin_gate_def authenticate_def requireAdmin_def Let_def
        split: option.splits if_splits)
  then show ?thesis by (simp add: admin_delete_route_def)
qed

lemma test_admin_login:
  "findByEmail ''admin@example.com'' test_users = Some (test_users ! 1)
   \<and> login test_deps 0 \<lparr>login_email = ''admin@example.com'', login_password = ''Admin@1234''\<rparr>
        test_users
       = Inr \<lparr>auth_user = sanitizeUser (test_users ! 1), auth_token = ''jwt:admin:admin-1''\<rparr>
   \<and> user_id (test_users ! 1) = ''admin-1'' \<and> user_role (test_users ! 1) = ''admin''"
  by (simp add: login_def findByEmail_def test_users_def test_deps_def test_sign_def)

text \<open>
  C6, as the code has it. Every failure of \<open>authenticate\<close> has status 401 and code
  UNAUTHORIZED. An absent header and a header that does not start with \<open>Bearer \<close> get
  one and the same response; every failure of the token's verification gets one and the
  same response; but the two responses differ in their message, so the response tells a
  missing or malformed header from a token that failed verification. On success the
  decoded claim is attached to the request.
\<close>

theorem authenticate_failures:
  "(\<forall>r. authenticate verify secret now req = Sent r \<longrightarrow>
       res_status r = 401 \<and> (\<exists>m. res_json r = ErrorResponse ''UNAUTHORIZED'' m None))
   \<and> (authorization req = None \<longrightarrow>
        authenticate verify secret now req
          = Sent (sendError ''UNAUTHORIZED''
              ''Authentication required. Please provide a valid Bearer token.'' 401 None))
   \<and> (\<forall>h. authorization req = Some h \<and> \<not> startsWith h ''Bearer '' \<longrightarrow>
        authenticate verify secret now req
          = Sent (sendError ''UNAUTHORIZED''
              ''Authentication required. Please provide a valid Bearer token.'' 401 None))
   \<and> (\<forall>h. authorization req = Some h \<and> startsWith h ''Bearer ''
          \<and> verify (drop 7 h) secret now = None \<longrightarrow>
        authenticate verify secret now req
          = Sent (sendError ''UNAUTHORIZED'' ''Invalid or expired token.'' 401 None))
   \<and> (\<forall>h payload. authorization req = Some h \<and> startsWith h ''Bearer ''
          \<and> verify (drop 7 h) secret now = Some payload \<longrightarrow>
        authenticate verify secret now req = Next (req\<lparr>req_user := Some payload\<rparr>))"
  by (auto simp: authenticate_def sendError_def error_entries startsWith_def Let_def
      split: option.splits if_splits)

text \<open>
  The theorem at the request of the ordinary user's token: the claim is attached.
\<close>

theorem authenticate_failures_witness:
  "authorization (test_request (Some ''Bearer jwt:user:user-1'')) = Some ''Bearer jwt:user:user-1''
   \<and> startsWith ''Bearer jwt:user:user-1'' ''Bearer ''
   \<and> test_verify (drop 7 ''Bearer jwt:user:user-1'') ''test-secret-key-for-testing-only'' 5
       = Some \<lparr>userId = ''user-1'', role = ''user''\<rparr>
   \<and> (authenticate test_verify ''test-secret-key-for-testing-only'' 5
         (test_request (Some ''Bearer jwt:user:user-1'')) :: unit outcome)
       = Next ((test_request (Some ''Bearer jwt:user:user-1''))
                \<lparr>req_user := Some \<lparr>userId = ''user-1'', role = ''user''\<rparr>\<rparr>)"
proof -
  have h: "authorization (test_request (Some ''Bearer jwt:user:user-1''))
             = Some ''Bearer jwt:user:user-1''"
    by (simp add: test_request_def)
  have p: "startsWith ''Bearer jwt:user:user-1'' ''Bearer ''"
    by (simp add: startsWith_def)
  have v: "test_verify (drop 7 ''Bearer jwt:user:user-1'') ''test-secret-key-for-testing-only'' 5
       = Some \<lparr>userId = ''user-1'', role = ''user''\<rparr>"
    using test_verify_user by simp
  have "(authenticate test_verify ''test-secret-key-for-testing-only'' 5
         (test_request (Some ''Bearer jwt:user:user-1'')) :: unit outcome)
       = Next ((test_request (Some ''Bearer jwt:user:user-1''))
                \<lparr>req_user := Some \<lparr>userId = ''user-1'', role = ''user''\<rparr>\<rparr>)"
    using authenticate_failures
      [where verify = test_verify and secret = "''test-secret-key-for-testing-only''"
         and now = 5 and req = "test_request (Some ''Bearer jwt:user:user-1'')",
       THEN conjunct2, THEN conjunct2, THEN conjunct2, THEN conjunct2, rule_format,
       of "''Bearer jwt:user:user-1''" "\<lparr>userId = ''user-1'', role = ''user''\<rparr>"]
      h p v
    by blast
  with h p v show ?thesis by blast
qed

text \<open>
  C6 as stated fails: the request without a header and the request with the header
  \<open>Bearer invalid-token\<close> of tests/auth.test.ts are both refused with UNAUTHORIZED, but
  with different messages.
\<close>

theorem authenticate_failures_distinguishable:
  "(authenticate test_verify ''test-secret-key-for-testing-only'' 5 (test_request None)
      :: unit outcome)
     = Sent (sendError ''UNAUTHORIZED''
               ''Authentication required. Please provide a valid Bearer token.'' 401 None)
   \<and> (authenticate test_verify ''test-secret-key-for-testing-only'' 5
        (test_request (Some ''Bearer invalid-token'')) :: unit outcome)
     = Sent (sendError ''UNAUTHORIZED'' ''Invalid or expired token.'' 401 None)
   \<and> (authenticate test_verify ''test-secret-key-for-testing-only'' 5 (test_request None)
        :: unit outcome)
     \<noteq> authenticate test_verify ''test-secret-key-for-testing-only'' 5
         (test_request (Some ''Bearer invalid-token''))"
proof -
  have a: "(authenticate test_verify ''test-secret-key-for-testing-only'' 5 (test_request None)
      :: unit outcome)
     = Sent (sendError ''UNAUTHORIZED''
               ''Authentication required. Please provide a valid Bearer token.'' 401 None)"
    by (simp add: authenticate_def test_request_def error_entries)
  have b: "(authenticate test_verify ''test-secret-key-for-testing-only'' 5
        (test_request (Some ''Bearer invalid-token'')) :: unit outcome)
     = Sent (sendError ''UNAUTHORIZED'' ''Invalid or expired token.'' 401 None)"
    using authenticate_Bearer [of test_verify "''test-secret-key-for-testing-only''" 5
        "''invalid-token''"] test_verify_invalid
    by simp
  show ?thesis unfolding a b by (simp add: sendError_def)
qed

text \<open>
  C7. \<open>requireAdmin\<close> answers a request without a claim with UNAUTHORIZED, a claim whose
  role is not \<open>admin\<close> with FORBIDDEN, and passes an admin claim on. \<open>adminDeleteProject\<close>
  checks existence only: NOT_FOUND for an unknown id, and otherwise the project is removed
  whoever owns it. On the route \<open>DELETE /admin/projects/:id\<close> an authenticated request is
  answered with FORBIDDEN unless its claim's role is \<open>admin\<close>, and an admin's request
  deletes the project without any comparison of owners.
\<close>

theorem admin_role_gate_then_existence_only:
  "(req_user req = None \<longrightarrow>
      requireAdmin req = Sent (sendError ''UNAUTHORIZED'' ''Authentication required.'' 401 None))
   \<and> (\<forall>u. req_user req = Some u \<and> role u \<noteq> ''admin'' \<longrightarrow>
      requireAdmin req = Sent (sendError ''FORBIDDEN'' ''Admin access required.'' 403 None))
   \<and> (\<forall>u. req_user req = Some u \<and> role u = ''admin'' \<longrightarrow> requireAdmin req = Next req)
   \<and> (projs pid = None \<longrightarrow>
      adminDeleteProject pid projs = Inl (AppError ''NOT_FOUND'' ''Project not found.'' 404))
   \<and> (\<forall>p. projs pid = Some p \<longrightarrow> adminDeleteProject pid projs = Inr (projs(pid := None)))
   \<and> (\<forall>h u. authorization req0 = Some h \<and> startsWith h ''Bearer ''
          \<and> verify (drop 7 h) secret now = Some u \<longrightarrow>
        admin_delete_route verify secret now req0 pid db =
          (if role u \<noteq> ''admin'' then
             (sendError ''FORBIDDEN'' ''Admin access required.'' 403 None, db)
           else case db_projects db pid of
                  None \<Rightarrow> (sendError ''NOT_FOUND'' ''Project not found.'' 404 None, db)
                | Some p \<Rightarrow> (sendSuccess ''Project deleted successfully'' 200,
                             db\<lparr>db_projects := (db_projects db)(pid := None)\<rparr>)))"
proof (intro conjI allI impI)
  fix h u
  assume "authorization req0 = Some h \<and> startsWith h ''Bearer ''
          \<and> verify (drop 7 h) secret now = Some u"
  then show "admin_delete_route verify secret now req0 pid db =
          (if role u \<noteq> ''admin'' then
             (sendError ''FORBIDDEN'' ''Admin access required.'' 403 None, db)
           else case db_projects db pid of
                  None \<Rightarrow> (sendError ''NOT_FOUND'' ''Project not found.'' 404 None, db)
                | Some p \<Rightarrow> (sendSuccess ''Project deleted successfully'' 200,
                             db\<lparr>db_projects := (db_projects db)(pid := None)\<rparr>))"
    using admin_delete_route_authenticated by blast
qed (auto simp: requireAdmin_def adminDeleteProject_def prisma_project_delete_def error_entries)

text \<open>
  The theorem at the admin's token and the project \<open>p1\<close>, which the ordinary user owns.
\<close>

theorem admin_role_gate_then_existence_only_witness:
  "authorization (test_request (Some ''Bearer jwt:admin:admin-1'')) = Some ''Bearer jwt:admin:admin-1''
   \<and> startsWith ''Bearer jwt:admin:admin-1'' ''Bearer ''
   \<and> test_verify (drop 7 ''Bearer jwt:admin:admin-1'') ''test-secret-key-for-testing-only'' 5
       = Some \<lparr>userId = ''admin-1'', role = ''admin''\<rparr>
   \<and> admin_delete_route test_verify ''test-secret-key-for-testing-only'' 5
        (test_request (Some ''Bearer jwt:admin:admin-1'')) ''p1''
        \<lparr>db_users = test_users, db_projects = test_projects\<rparr>
       = (sendSuccess ''Project deleted successfully'' 200,
          \<lparr>db_users = test_users, db_projects = Map.empty\<rparr>)"
proof -
  have "admin_delete_route test_verify ''test-secret-key-for-testing-only'' 5
        (test_request (Some ''Bearer jwt:admin:admin-1'')) ''p1''
        \<lparr>db_users = test_users, db_projects = test_projects\<rparr>
       = (sendSuccess ''Project deleted successfully'' 200,
          \<lparr>db_users = test_users, db_projects = Map.empty\<rparr>)"
    using admin_role_gate_then_existence_only
      [where verify = test_verify and secret = "''test-secret-key-for-testing-only''"
         and now = 5 and ?req0.0 = "test_request (Some ''Bearer jwt:admin:admin-1'')"
         and pid = "''p1''" and db = "\<lparr>db_users = test_users, db_projects = test_projects\<rparr>",
       THEN conjunct2, THEN conjunct2, THEN conjunct2, THEN conjunct2, THEN conjunct2,
       rule_format, of "''Bearer jwt:admin:admin-1''" "\<lparr>userId = ''admin-1'', role = ''admin''\<rparr>"]
      test_admin_header test_projects_p1
    by (auto split: option.splits)
  with test_admin_header show ?thesis by blast
qed

text \<open>
  C10, as the code has it. The gate reads the request's \<open>authorization\<close> header and
  nothing else of the request, and no table: the response of the admin route is the same
  for two requests with the same header at the same time, whatever the users table holds,
  and a refusal by the gate leaves the database as it was. The gate's decision is a
  function of the token, the key and the time of the verification, since the codec checks
  the token's expiry against the clock. The role the gate uses is the role that \<open>login\<close>
  wrote into the token: for a token that verifies to the claim issued at login, the route
  decides by the role the user had in the table at login, whatever the tables hold now.
\<close>

theorem gate_decision_from_token:
  "(authorization req1 = authorization req2 \<and> db_projects db1 = db_projects db2 \<longrightarrow>
       fst (admin_delete_route verify secret now req1 pid db1)
         = fst (admin_delete_route verify secret now req2 pid db2))
   \<and> (\<forall>r. admin_gate verify secret now req1 = Sent r
          \<and> authorization req1 = authorization req2 \<longrightarrow>
        admin_delete_route verify secret now req2 pid db = (r, db))
   \<and> (\<forall>x res. findByEmail (login_email input) tbl0 = Some x
          \<and> login deps t0 input tbl0 = Inr res
          \<and> verify (auth_token res) secret now
               = Some \<lparr>userId = user_id x, role = user_role x\<rparr>
          \<and> authorization req = Some (''Bearer '' @ auth_token res) \<longrightarrow>
        admin_delete_route verify secret now req pid db =
          (if user_role x \<noteq> ''admin'' then
             (sendError ''FORBIDDEN'' ''Admin access required.'' 403 None, db)
           else case db_projects db pid of
                  None \<Rightarrow> (sendError ''NOT_FOUND'' ''Project not found.'' 404 None, db)
                | Some p \<Rightarrow> (sendSuccess ''Project deleted successfully'' 200,
                             db\<lparr>db_projects := (db_projects db)(pid := None)\<rparr>)))"
proof (intro conjI allI impI)
  assume "authorization req1 = authorization req2 \<and> db_projects db1 = db_projects db2"
  then show "fst (admin_delete_route verify secret now req1 pid db1)
         = fst (admin_delete_route verify secret now req2 pid db2)"
    using admin_delete_route_header_only by blast
next
  fix r :: "string Response"
  assume "admin_gate verify secret now req1 = Sent r
          \<and> authorization req1 = authorization req2"
  then show "admin_delete_route verify secret now req2 pid db = (r, db)"
    using admin_gate_rejection by blast
next
  fix x res
  assume a: "findByEmail (login_email input) tbl0 = Some x
          \<and> login deps t0 input tbl0 = Inr res
          \<and> verify (auth_token res) secret now
               = Some \<lparr>userId = user_id x, role = user_role x\<rparr>
          \<and> authorization req = Some (''Bearer '' @ auth_token res)"
  have "startsWith (''Bearer '' @ auth_token res) ''Bearer ''"
    by (simp add: startsWith_def)
  moreover have "verify (drop 7 (''Bearer '' @ auth_token res)) secret now
      = Some \<lparr>userId = user_id x, role = user_role x\<rparr>"
    using a by simp
  ultimately show "admin_delete_route verify secret now req pid db =
          (if user_role x \<noteq> ''admin'' then
             (sendError ''FORBIDDEN'' ''Admin access required.'' 403 None, db)
           else case db_projects db pid of
                  None \<Rightarrow> (sendError ''NOT_FOUND'' ''Project not found.'' 404 None, db)
                | Some p \<Rightarrow> (sendSuccess ''Project deleted successfully'' 200,
                             db\<lparr>db_projects := (db_projects db)(pid := None)\<rparr>))"
    using a admin_delete_route_authenticated
      [of req "''Bearer '' @ auth_token res" verify secret now
          "\<lparr>userId = user_id x, role = user_role x\<rparr>" pid db]
    by simp
qed

text \<open>
  The theorem at the admin's login at time 0 and a request at time 5, when the users table
  is empty: the route still deletes the project.
\<close>

theorem gate_decision_from_token_witness:
  "findByEmail ''admin@example.com'' test_users = Some (test_users ! 1)
   \<and> login test_deps 0 \<lparr>login_email = ''admin@example.com'', login_password = ''Admin@1234''\<rparr>
        test_users
       = Inr \<lparr>auth_user = sanitizeUser (test_users ! 1), auth_token = ''jwt:admin:admin-1''\<rparr>
   \<and> test_verify ''jwt:admin:admin-1'' ''test-secret-key-for-testing-only'' 5
       = Some \<lparr>userId = ''admin-1'', role = ''admin''\<rparr>
   \<and> admin_delete_route test_verify ''test-secret-key-for-testing-only'' 5
        (test_request (Some ''Bearer jwt:admin:admin-1'')) ''p1''
        \<lparr>db_users = [], db_projects = test_projects\<rparr>
       = (sendSuccess ''Project deleted successfully'' 200,
          \<lparr>db_users = [], db_projects = Map.empty\<rparr>)"
proof -
  have hdr: "authorization (test_request (Some ''Bearer jwt:admin:admin-1''))
      = Some (''Bearer '' @ auth_token \<lparr>auth_user = sanitizeUser (test_users ! 1),
                                       auth_token = ''jwt:admin:admin-1''\<rparr>)"
    by (simp add: test_request_def)
  have v: "test_verify (auth_token \<lparr>auth_user = sanitizeUser (test_users ! 1),
                                    auth_token = ''jwt:admin:admin-1''\<rparr>)
             ''test-secret-key-for-testing-only'' 5
      = Some \<lparr>userId = user_id (test_users ! 1), role = user_role (test_users ! 1)\<rparr>"
    using test_verify_admin test_admin_login by simp
  have "admin_delete_route test_verify ''test-secret-key-for-testing-only'' 5
        (test_request (Some ''Bearer jwt:admin:admin-1'')) ''p1''
        \<lparr>db_users = [], db_projects = test_projects\<rparr>
       = (sendSuccess ''Project deleted successfully'' 200,
          \<lparr>db_users = [], db_projects = Map.empty\<rparr>)"
    using gate_decision_from_token
      [where verify = test_verify and secret = "''test-secret-key-for-testing-only''"
         and now = 5 and req = "test_request (Some ''Bearer jwt:admin:admin-1'')"
         and pid = "''p1''" and db = "\<lparr>db_users = [], db_projects = test_projects\<rparr>"
         and input = "\<lparr>login_email = ''admin@example.com'', login_password = ''Admin@1234''\<rparr>"
         and ?tbl0.0 = test_users and deps = test_deps and ?t0.0 = 0,
       THEN conjunct2, THEN conjunct2, rule_format,
       of "test_users ! 1" "\<lparr>auth_user = sanitizeUser (test_users ! 1),
                               auth_token = ''jwt:admin:admin-1''\<rparr>"]
      test_admin_login hdr v test_projects_p1
    by (auto split: option.splits)
  with test_admin_login test_verify_admin show ?thesis by blast
qed

text \<open>
  C10 as stated fails: two requests with the same token and the same key get different
  decisions from the gate when the token's lifetime of 24 hours ends between them.
\<close>

theorem gate_decision_changes_with_time:
  "(admin_gate test_verify ''test-secret-key-for-testing-only'' 5
       (test_request (Some ''Bearer jwt:admin:admin-1'')) :: unit outcome)
     = Next ((test_request (Some ''Bearer jwt:admin:admin-1''))
              \<lparr>req_user := Some \<lparr>userId = ''admin-1'', role = ''admin''\<rparr>\<rparr>)
   \<and> (admin_gate test_verify ''test-secret-key-for-testing-only'' 86400000
       (test_request (Some ''Bearer jwt:admin:admin-1'')) :: unit outcome)
     = Sent (sendError ''UNAUTHORIZED'' ''Invalid or expired token.'' 401 None)"
proof -
  have a: "(authenticate test_verify ''test-secret-key-for-testing-only'' 5
       (test_request (Some ''Bearer jwt:admin:admin-1'')) :: unit outcome)
     = Next ((test_request (Some ''Bearer jwt:admin:admin-1''))
              \<lparr>req_user := Some \<lparr>userId = ''admin-1'', role = ''admin''\<rparr>\<rparr>)"
    using authenticate_Bearer [of test_verify "''test-secret-key-for-testing-only''" 5
        "''jwt:admin:admin-1''"] test_verify_admin
    by simp
  have b: "(authenticate test_verify ''test-secret-key-for-testing-only'' 86400000
       (test_request (Some ''Bearer jwt:admin:admin-1'')) :: unit outcome)
     = Sent (sendError ''UNAUTHORIZED'' ''Invalid or expired token.'' 401 None)"
    using authenticate_Bearer [of test_verify "''test-secret-key-for-testing-only''" 86400000
        "''jwt:admin:admin-1''"] test_verify_expired
    by simp
  show ?thesis
    unfolding admin_gate_def a b by (simp add: requireAdmin_def test_request_def)
qed

end
